theory Spec2Isabelle
  imports Main "HOL-Library.AList"
begin

section \<open>The Tenlixor translation client (src/sdk/typescript/src/tenlixor.ts)\<close>

text \<open>
  A shallow embedding of the class \<open>Tenlixor\<close>. Every method becomes a function that takes
  the instance (and the part of the host page it touches) as a record and returns the
  updated record; a method that can throw also returns the error. The model follows the
  single-threaded reading of the SDK: an \<open>async\<close> method runs from its first statement to
  its last without another engine operation in between, and the outcome of the one
  \<open>fetch\<close> it awaits is an input of the method (\<open>env\<close>).

  JavaScript strings are \<open>string\<close>; the truthiness test of a string is \<open>\<noteq> []\<close>, of a
  number \<open>\<noteq> 0\<close>. Plain objects used as dictionaries are maps; keys are taken to be
  ordinary property names (no name that \<open>Object.prototype\<close> already defines).
\<close>

subsection \<open>Types (types.ts)\<close>

text \<open>\<open>TenlixorConfig\<close>: what the caller passes; an omitted property is \<open>None\<close>.\<close>

record TenlixorConfig =
  cfg_token :: "string option"
  cfg_tenantSlug :: "string option"
  cfg_language :: "string option"
  cfg_apiUrl :: "string option"
  cfg_cache :: "bool option"
  cfg_cacheTTL :: "int option"
  cfg_fallbackLanguage :: "string option"
  cfg_autoScan :: "bool option"

text \<open>\<open>Required<TenlixorConfig>\<close>: the resolved configuration kept in \<open>this.config\<close>.\<close>

record config =
  token :: string
  tenantSlug :: string
  language :: string
  apiUrl :: string
  cache :: bool
  cacheTTL :: int
  fallbackLanguage :: string
  autoScan :: bool

text \<open>
  \<open>TenlixorResource\<close> (only \<open>key\<close> and \<open>value\<close> are read by the engine),
  \<open>TenlixorLanguage\<close>, \<open>TenlixorResponseData\<close> and \<open>TenlixorCacheEntry\<close>.
\<close>

record resource =
  res_key :: string
  res_value :: string

record language_block =
  code :: string
  resources :: "resource list"

record response_data =
  tenant_id :: string
  languages :: "language_block list"

record cache_entry =
  timestamp :: int
  data :: response_data

text \<open>
  What \<open>localStorage\<close> holds under a key: a string that \<open>JSON.parse\<close> turns into a cache
  entry, or one on which \<open>JSON.parse\<close> throws.
\<close>

datatype stored = Unparsable | Stored cache_entry

text \<open>Errors thrown by the constructor and by the fetch of \<open>fetchStrings\<close>.\<close>

datatype error =
    TokenRequired
  | TenantSlugRequired
  | Unauthorized
  | HttpError nat string
  | ApiFailure
  | NetworkError string
  | InvalidJson

text \<open>Events: \<open>TenlixorEventType\<close> and the three event payloads.\<close>

datatype event_type = Loaded | Error | LanguageChanged

datatype event_data =
    LoadedEvent string bool
  | ErrorEvent string error
  | LanguageChangedEvent string string

text \<open>
  A registered callback. It is opaque to the engine: all that the engine observes is
  whether the call returns or throws. \<open>cb_id\<close> names the callback in the call log.
\<close>

record listener =
  cb_id :: nat
  cb_throws :: "event_data \<Rightarrow> bool"

text \<open>
  The rendered tree. An element has its \<open>tagName.toLowerCase()\<close>, its attributes in
  document order and its child nodes.
\<close>

datatype node =
    TextNode string
  | Element string "(string \<times> string) list" "node list"

record dom =
  readyState :: string
  documentElement :: node

text \<open>What the network answers to the request of \<open>fetchStrings\<close>.\<close>

datatype response_body = BadJson | Envelope bool response_data

datatype fetch_result =
    Rejected string
  | Response nat string response_body

record request =
  req_url :: string
  req_language_code :: string
  req_tenant_slug :: string
  req_api_key :: string

text \<open>
  The inputs of one operation: the answer of the network, \<open>Date.now()\<close> when the cache is
  read before the request, and \<open>Date.now()\<close> when the answer is saved.
\<close>

record env =
  fetch :: "request \<Rightarrow> fetch_result"
  now :: int
  now_saved :: int

text \<open>
  The host page around the engine: \<open>localStorage\<close> (\<open>None\<close> where
  \<open>typeof localStorage\<close> is \<open>'undefined'\<close>), \<open>document\<close> (\<open>None\<close> where there is none),
  the number of \<open>DOMContentLoaded\<close> handlers that \<open>init\<close> registered, the log of callback
  invocations (callback, argument) and the console (the event whose listener threw, and
  the listener).
\<close>

record host =
  localStorage :: "(string \<rightharpoonup> stored) option"
  document :: "dom option"
  deferredScans :: nat
  calls :: "(nat \<times> event_data) list"
  console :: "(event_type \<times> nat) list"

text \<open>The instance fields of \<open>Tenlixor\<close>, on top of the host it runs in.\<close>

record tenlixor = host +
  config :: config
  data_tenant_id :: "string option"
  data_languages :: "string \<rightharpoonup> (string \<rightharpoonup> string)"
  listeners :: "event_type \<Rightarrow> listener list"
  isInitialized :: bool
  currentLanguage :: string
  isLoading :: bool
  memoryCache :: "string \<rightharpoonup> cache_entry"

subsection \<open>Constructor (lines 35-69)\<close>

text \<open>\<open>a || b\<close> on an optional string and on an optional number.\<close>

definition or_string :: "string option \<Rightarrow> string \<Rightarrow> string" where
  "or_string a b = (case a of None \<Rightarrow> b | Some v \<Rightarrow> if v = [] then b else v)"

definition or_number :: "int option \<Rightarrow> int \<Rightarrow> int" where
  "or_number a b = (case a of None \<Rightarrow> b | Some v \<Rightarrow> if v = 0 then b else v)"

text \<open>\<open>a !== false\<close> on an optional boolean.\<close>

definition not_false :: "bool option \<Rightarrow> bool" where
  "not_false a = (a \<noteq> Some False)"

text \<open>\<open>!a\<close> on an optional string.\<close>

definition falsy :: "string option \<Rightarrow> bool" where
  "falsy a = (case a of None \<Rightarrow> True | Some v \<Rightarrow> v = [])"

text \<open>
  The constructor throws or builds the instance; \<open>h\<close> is the host page the instance
  lives in, which the constructor does not touch.
\<close>

definition Tenlixor :: "TenlixorConfig \<Rightarrow> host \<Rightarrow> error + tenlixor" where
  "Tenlixor c h =
     (if falsy (cfg_token c) then Inl TokenRequired
      else if falsy (cfg_tenantSlug c) then Inl TenantSlugRequired
      else Inr \<lparr>
        localStorage = localStorage h,
        document = document h,
        deferredScans = deferredScans h,
        calls = calls h,
        console = console h,
        config = \<lparr>
          token = or_string (cfg_token c) [],
          tenantSlug = or_string (cfg_tenantSlug c) [],
          language = or_string (cfg_language c) ''en'',
          apiUrl = or_string (cfg_apiUrl c) ''https://api-tenlixor.verbytes.com/api/v1/strings'',
          cache = not_false (cfg_cache c),
          cacheTTL = or_number (cfg_cacheTTL c) 300000,
          fallbackLanguage = or_string (cfg_fallbackLanguage c) ''en'',
          autoScan = not_false (cfg_autoScan c) \<rparr>,
        data_tenant_id = None,
        data_languages = Map.empty,
        listeners = (\<lambda>_. []),
        isInitialized = False,
        currentLanguage = or_string (cfg_language c) ''en'',
        isLoading = False,
        memoryCache = Map.empty \<rparr>)"

subsection \<open>mergeData (lines 176-188)\<close>

text \<open>
  The inner \<open>forEach\<close> assigns \<open>keyValueMap[resource.key] = resource.value\<close> for each
  resource in turn; the outer one assigns \<open>this.data.languages[lang.code] = keyValueMap\<close>
  for each language block in turn.
\<close>

definition keyValueMap :: "resource list \<Rightarrow> (string \<rightharpoonup> string)" where
  "keyValueMap rs = foldl (\<lambda>m resource. m(res_key resource \<mapsto> res_value resource)) Map.empty rs"

definition mergeLanguages ::
  "(string \<rightharpoonup> (string \<rightharpoonup> string)) \<Rightarrow> language_block list \<Rightarrow> (string \<rightharpoonup> (string \<rightharpoonup> string))" where
  "mergeLanguages tbl ls = foldl (\<lambda>m lang. m(code lang \<mapsto> keyValueMap (resources lang))) tbl ls"

definition mergeData :: "tenlixor \<Rightarrow> response_data \<Rightarrow> tenlixor" where
  "mergeData s d = s\<lparr>data_languages := mergeLanguages (data_languages s) (languages d)\<rparr>"

subsection \<open>t (lines 196-214)\<close>

text \<open>
  \<open>this.data.languages[lang] && this.data.languages[lang][key]\<close>: the string under
  \<open>key\<close> in the table of \<open>lang\<close> when there is one and it is truthy (not empty).
\<close>

definition truthy_entry :: "tenlixor \<Rightarrow> string \<Rightarrow> string \<Rightarrow> string option" where
  "truthy_entry s lang k =
     (case data_languages s lang of
        None \<Rightarrow> None
      | Some m \<Rightarrow> (case m k of None \<Rightarrow> None | Some v \<Rightarrow> if v = [] then None else Some v))"

definition t :: "tenlixor \<Rightarrow> string \<Rightarrow> string option \<Rightarrow> string" where
  "t s k languageCode =
     (let lang = or_string languageCode (currentLanguage s) in
      case truthy_entry s lang k of
        Some v \<Rightarrow> v
      | None \<Rightarrow>
          if lang \<noteq> fallbackLanguage (config s) then
            (case truthy_entry s (fallbackLanguage (config s)) k of
               Some v \<Rightarrow> v
             | None \<Rightarrow> k)
          else k)"

subsection \<open>The cache (lines 373-453)\<close>

definition getCacheKey :: "tenlixor \<Rightarrow> string \<Rightarrow> string" where
  "getCacheKey s languageCode =
     ''txr_'' @ or_string (data_tenant_id s) ''default'' @ ''_'' @ languageCode"

text \<open>
  \<open>getFromCache\<close> at time \<open>Date.now() = time\<close>. An item of \<open>localStorage\<close> that does not
  parse makes \<open>JSON.parse\<close> throw; the \<open>catch\<close> around both tiers then returns \<open>null\<close>
  without looking at the in-memory map. The warnings that the cache functions print are
  not part of the model, and the storage calls themselves are taken not to throw.
\<close>

definition getFromCache :: "tenlixor \<Rightarrow> string \<Rightarrow> bool \<Rightarrow> int \<Rightarrow> response_data option" where
  "getFromCache s languageCode ignoreTTL time =
     (let cacheKey = getCacheKey s languageCode;
          fromMemory =
            (case memoryCache s cacheKey of
               None \<Rightarrow> None
             | Some memoryCached \<Rightarrow>
                 if ignoreTTL \<or> time - timestamp memoryCached < cacheTTL (config s)
                 then Some (data memoryCached) else None)
      in case localStorage s of
           None \<Rightarrow> fromMemory
         | Some items \<Rightarrow>
             (case items cacheKey of
                None \<Rightarrow> fromMemory
              | Some Unparsable \<Rightarrow> None
              | Some (Stored parsed) \<Rightarrow>
                  if ignoreTTL \<or> time - timestamp parsed < cacheTTL (config s)
                  then Some (data parsed) else fromMemory))"

definition saveToCache :: "tenlixor \<Rightarrow> string \<Rightarrow> response_data \<Rightarrow> int \<Rightarrow> tenlixor" where
  "saveToCache s languageCode d time =
     (let cacheKey = getCacheKey s languageCode;
          cacheData = \<lparr>timestamp = time, data = d\<rparr>
      in s\<lparr>localStorage :=
             (case localStorage s of
                None \<Rightarrow> None
              | Some items \<Rightarrow> Some (items(cacheKey \<mapsto> Stored cacheData))),
           memoryCache := (memoryCache s)(cacheKey \<mapsto> cacheData)\<rparr>)"

definition clearCache :: "tenlixor \<Rightarrow> string \<Rightarrow> tenlixor" where
  "clearCache s languageCode =
     (let cacheKey = getCacheKey s languageCode
      in s\<lparr>localStorage :=
             (case localStorage s of
                None \<Rightarrow> None
              | Some items \<Rightarrow> Some (items(cacheKey := None))),
           memoryCache := (memoryCache s)(cacheKey := None)\<rparr>)"

subsection \<open>fetchStrings (lines 112-170)\<close>

text \<open>
  Lines 123-144: the request and what is thrown on its answer. \<open>response.ok\<close> is a
  status from 200 to 299. \<open>req_language_code\<close> is the query parameter before
  \<open>encodeURIComponent\<close>.
\<close>

definition fetchResponse :: "tenlixor \<Rightarrow> env \<Rightarrow> string \<Rightarrow> error + response_data" where
  "fetchResponse s e languageCode =
     (case fetch e \<lparr>req_url = apiUrl (config s),
                    req_language_code = languageCode,
                    req_tenant_slug = tenantSlug (config s),
                    req_api_key = token (config s)\<rparr> of
        Rejected msg \<Rightarrow> Inl (NetworkError msg)
      | Response status statusText body \<Rightarrow>
          if \<not> (200 \<le> status \<and> status \<le> 299) then
            (if status = 401 then Inl Unauthorized else Inl (HttpError status statusText))
          else
            (case body of
               BadJson \<Rightarrow> Inl InvalidJson
             | Envelope success d \<Rightarrow> if \<not> success then Inl ApiFailure else Inr d))"

text \<open>
  The result is what the promise settles with (\<open>Inl\<close>: rejected) and the instance after the
  call.
\<close>

definition fetchStrings :: "tenlixor \<Rightarrow> env \<Rightarrow> string \<Rightarrow> (error + response_data) \<times> tenlixor" where
  "fetchStrings s e languageCode =
     (case (if cache (config s) then getFromCache s languageCode False (now e) else None) of
        Some cached \<Rightarrow> (Inr cached, mergeData s cached)
      | None \<Rightarrow>
          (case fetchResponse s e languageCode of
             Inr d \<Rightarrow>
               (let s1 = (if tenant_id d \<noteq> [] then s\<lparr>data_tenant_id := Some (tenant_id d)\<rparr> else s);
                    s2 = mergeData s1 d;
                    s3 = (if cache (config s2) then saveToCache s2 languageCode d (now_saved e) else s2)
                in (Inr d, s3))
           | Inl err \<Rightarrow>
               (case (if cache (config s) then getFromCache s languageCode True (now e) else None) of
                  Some cached \<Rightarrow> (Inr cached, mergeData s cached)
                | None \<Rightarrow> (Inl err, s))))"

subsection \<open>The event bus (lines 333-365)\<close>

definition on :: "tenlixor \<Rightarrow> event_type \<Rightarrow> listener \<Rightarrow> tenlixor" where
  "on s event callback = s\<lparr>listeners := (listeners s)(event := listeners s event @ [callback])\<rparr>"

definition off :: "tenlixor \<Rightarrow> event_type \<Rightarrow> listener \<Rightarrow> tenlixor" where
  "off s event callback =
     s\<lparr>listeners := (listeners s)(event := filter (\<lambda>cb. cb_id cb \<noteq> cb_id callback) (listeners s event))\<rparr>"

text \<open>
  The body of the \<open>forEach\<close> of \<open>emit\<close>: the callback is called, and what it throws is
  caught and printed with \<open>console.error\<close>.
\<close>

definition call_listener :: "event_type \<Rightarrow> event_data \<Rightarrow> tenlixor \<Rightarrow> listener \<Rightarrow> tenlixor" where
  "call_listener event d s callback =
     (let s1 = s\<lparr>calls := calls s @ [(cb_id callback, d)]\<rparr>
      in if cb_throws callback d
         then s1\<lparr>console := console s1 @ [(event, cb_id callback)]\<rparr>
         else s1)"

definition emit :: "tenlixor \<Rightarrow> event_type \<Rightarrow> event_data \<Rightarrow> tenlixor" where
  "emit s event d = foldl (call_listener event d) s (listeners s event)"

subsection \<open>The scanner (lines 263-326)\<close>

definition hasAttribute :: "(string \<times> string) list \<Rightarrow> string \<Rightarrow> bool" where
  "hasAttribute attrs name = (map_of attrs name \<noteq> None)"

definition getAttribute :: "(string \<times> string) list \<Rightarrow> string \<Rightarrow> string option" where
  "getAttribute attrs name = map_of attrs name"

text \<open>\<open>setAttribute\<close> replaces the attribute where it stands or appends it.\<close>

definition setAttribute :: "(string \<times> string) list \<Rightarrow> string \<Rightarrow> string \<Rightarrow> (string \<times> string) list" where
  "setAttribute attrs name v = AList.update name v attrs"

text \<open>\<open>String.prototype.trim\<close>, on the white space of ASCII.\<close>

definition is_space :: "char \<Rightarrow> bool" where
  "is_space c = (c \<in> set [CHR 0x09, CHR 0x0A, CHR 0x0B, CHR 0x0C, CHR 0x0D, CHR 0x20])"

definition trim :: "string \<Rightarrow> string" where
  "trim x = rev (dropWhile is_space (rev (dropWhile is_space x)))"

text \<open>
  Lines 271-285. \<open>querySelectorAll('[data-txr-key]')\<close> lists the elements that carry the
  attribute in document order, and the \<open>forEach\<close> rewrites each of them. An element whose
  \<open>textContent\<close> is assigned loses its children; the listed elements among them are still
  rewritten, but they have left the tree. On the tree the pass is therefore a walk from the
  root that stops below every element it rewrites. \<open>t\<close> never returns the empty string for
  a truthy key, so the assignment leaves exactly one text node.
\<close>

fun scanAttributes :: "tenlixor \<Rightarrow> string \<Rightarrow> node \<Rightarrow> node" where
  "scanAttributes s lang (TextNode x) = TextNode x"
| "scanAttributes s lang (Element tag attrs children) =
     (case getAttribute attrs ''data-txr-key'' of
        None \<Rightarrow> Element tag attrs (map (scanAttributes s lang) children)
      | Some k \<Rightarrow>
          if k \<noteq> [] \<and> \<not> hasAttribute attrs ''data-txr-resolved'' then
            Element tag
              (setAttribute (setAttribute attrs ''data-txr-resolved'' ''true'') ''data-txr-lang'' lang)
              [TextNode (t s k (Some lang))]
          else if k \<noteq> [] \<and> getAttribute attrs ''data-txr-lang'' \<noteq> Some lang then
            Element tag (setAttribute attrs ''data-txr-lang'' lang) [TextNode (t s k (Some lang))]
          else Element tag attrs (map (scanAttributes s lang) children))"

text \<open>
  \<open>scanTextNodes\<close> (lines 296-326) returns the node after the call and, for a text node
  that was translated, the key that the call writes on \<open>node.parentElement\<close>.
  \<open>scanChildNodes\<close> is the \<open>forEach\<close> over \<open>node.childNodes\<close>: it carries the attributes of
  the parent, which the calls on its text children mark.
\<close>

definition markResolved :: "(string \<times> string) list \<Rightarrow> string \<Rightarrow> string \<Rightarrow> (string \<times> string) list" where
  "markResolved attrs text lang =
     setAttribute
       (setAttribute (setAttribute attrs ''data-txr-resolved'' ''true'') ''data-txr-key'' text)
       ''data-txr-lang'' lang"

fun scanTextNodes :: "tenlixor \<Rightarrow> string \<Rightarrow> node \<Rightarrow> node \<times> string option"
  and scanChildNodes ::
    "tenlixor \<Rightarrow> string \<Rightarrow> node list \<Rightarrow> (string \<times> string) list \<Rightarrow> node list \<times> (string \<times> string) list"
where
  "scanTextNodes s lang (TextNode x) =
     (let text = trim x in
      if text \<noteq> [] \<and> truthy_entry s lang text \<noteq> None
      then (TextNode (t s text (Some lang)), Some text)
      else (TextNode x, None))"
| "scanTextNodes s lang (Element tag attrs children) =
     (if hasAttribute attrs ''data-txr-resolved'' then (Element tag attrs children, None)
      else if tag \<noteq> ''script'' \<and> tag \<noteq> ''style'' \<and> tag \<noteq> ''noscript'' then
        (case scanChildNodes s lang children attrs of
           (children', attrs') \<Rightarrow> (Element tag attrs' children', None))
      else (Element tag attrs children, None))"
| "scanChildNodes s lang [] attrs = ([], attrs)"
| "scanChildNodes s lang (child # rest) attrs =
     (case scanTextNodes s lang child of
        (child', mark) \<Rightarrow>
          (case scanChildNodes s lang rest
                  (case mark of None \<Rightarrow> attrs | Some text \<Rightarrow> markResolved attrs text lang) of
             (rest', attrs') \<Rightarrow> (child' # rest', attrs')))"

text \<open>
  \<open>document.body\<close>: the first child of the \<open>html\<close> root that is a \<open>body\<close> or a \<open>frameset\<close>
  element, \<open>null\<close> when there is none. \<open>scanBody\<close> is line 288,
  \<open>this.scanTextNodes(document.body, lang)\<close>, on the tree below the root.
\<close>

fun isBody :: "node \<Rightarrow> bool" where
  "isBody (TextNode x) = False"
| "isBody (Element tag attrs children) = (tag = ''body'' \<or> tag = ''frameset'')"

fun scanFirstBody :: "tenlixor \<Rightarrow> string \<Rightarrow> node list \<Rightarrow> node list" where
  "scanFirstBody s lang [] = []"
| "scanFirstBody s lang (child # rest) =
     (if isBody child then fst (scanTextNodes s lang child) # rest
      else child # scanFirstBody s lang rest)"

fun scanBody :: "tenlixor \<Rightarrow> string \<Rightarrow> node \<Rightarrow> node" where
  "scanBody s lang (TextNode x) = TextNode x"
| "scanBody s lang (Element tag attrs children) =
     (if tag = ''html'' then Element tag attrs (scanFirstBody s lang children)
      else Element tag attrs children)"

definition scan :: "tenlixor \<Rightarrow> tenlixor" where
  "scan s =
     (if \<not> isInitialized s then s
      else case document s of
        None \<Rightarrow> s
      | Some d \<Rightarrow>
          (let lang = currentLanguage s
           in s\<lparr>document :=
                  Some (d\<lparr>documentElement :=
                            scanBody s lang (scanAttributes s lang (documentElement d))\<rparr>)\<rparr>))"

subsection \<open>init, setLanguage, reload (lines 74-105, 220-258)\<close>

text \<open>
  An \<open>async\<close> method returns what its promise settles with (\<open>Some\<close> error: rejected) and
  the instance after the call.
\<close>

definition init :: "tenlixor \<Rightarrow> env \<Rightarrow> error option \<times> tenlixor" where
  "init s e =
     (if isLoading s then (None, s)
      else
        (case fetchStrings (s\<lparr>isLoading := True\<rparr>) e (currentLanguage s) of
           (Inr d, s1) \<Rightarrow>
             (let s2 = s1\<lparr>isInitialized := True\<rparr>;
                  s3 = (if autoScan (config s2) then
                          (case document s2 of
                             None \<Rightarrow> s2
                           | Some doc \<Rightarrow>
                               if readyState doc = ''loading''
                               then s2\<lparr>deferredScans := Suc (deferredScans s2)\<rparr>
                               else scan s2)
                        else s2);
                  s4 = emit s3 Loaded (LoadedEvent (currentLanguage s3) False)
              in (None, s4\<lparr>isLoading := False\<rparr>))
         | (Inl err, s1) \<Rightarrow>
             (None, (emit s1 Error (ErrorEvent ''INIT_FAILED'' err))\<lparr>isLoading := False\<rparr>)))"

definition setLanguage :: "tenlixor \<Rightarrow> env \<Rightarrow> string \<Rightarrow> error option \<times> tenlixor" where
  "setLanguage s e languageCode =
     (if languageCode = currentLanguage s then (None, s)
      else
        (let previousLanguage = currentLanguage s
         in case fetchStrings (s\<lparr>currentLanguage := languageCode\<rparr>) e languageCode of
              (Inr d, s1) \<Rightarrow>
                (None, emit (scan s1) LanguageChanged (LanguageChangedEvent previousLanguage languageCode))
            | (Inl err, s1) \<Rightarrow>
                (Some err,
                 emit (s1\<lparr>currentLanguage := previousLanguage\<rparr>) Error
                   (ErrorEvent ''LANGUAGE_CHANGE_FAILED'' err))))"

definition reload :: "tenlixor \<Rightarrow> env \<Rightarrow> error option \<times> tenlixor" where
  "reload s e =
     (let s0 = (if cache (config s) then clearCache s (currentLanguage s) else s)
      in case fetchStrings s0 e (currentLanguage s0) of
           (Inr d, s1) \<Rightarrow> (None, emit (scan s1) Loaded (LoadedEvent (currentLanguage s1) True))
         | (Inl err, s1) \<Rightarrow> (Some err, s1))"

definition getLanguage :: "tenlixor \<Rightarrow> string" where
  "getLanguage s = currentLanguage s"

definition isReady :: "tenlixor \<Rightarrow> bool" where
  "isReady s = isInitialized s"

subsection \<open>Concrete instances\<close>

text \<open>
  The instance of the scenario of the specification: constructed with
  \<open>{token: "t1", tenantSlug: "acme"}\<close> on a page with an empty \<open>localStorage\<close> and no
  document, then loaded with the English payload (\<open>engine_en\<close>), switched to Turkish
  (\<open>engine_tr\<close>).
\<close>

definition host0 :: host where
  "host0 = \<lparr>localStorage = Some Map.empty, document = None, deferredScans = 0,
             calls = [], console = []\<rparr>"

definition config0 :: TenlixorConfig where
  "config0 = \<lparr>cfg_token = Some ''t1'', cfg_tenantSlug = Some ''acme'', cfg_language = None,
               cfg_apiUrl = None, cfg_cache = None, cfg_cacheTTL = None,
               cfg_fallbackLanguage = None, cfg_autoScan = None\<rparr>"

definition config_falsy :: TenlixorConfig where
  "config_falsy = \<lparr>cfg_token = Some ''t1'', cfg_tenantSlug = Some ''acme'',
                    cfg_language = Some [], cfg_apiUrl = Some [], cfg_cache = None,
                    cfg_cacheTTL = Some 0, cfg_fallbackLanguage = Some [],
                    cfg_autoScan = None\<rparr>"

definition engine0 :: tenlixor where
  "engine0 = \<lparr>localStorage = Some Map.empty, document = None, deferredScans = 0,
               calls = [], console = [],
               config = \<lparr>token = ''t1'', tenantSlug = ''acme'', language = ''en'',
                          apiUrl = ''https://api-tenlixor.verbytes.com/api/v1/strings'',
                          cache = True, cacheTTL = 300000, fallbackLanguage = ''en'',
                          autoScan = True\<rparr>,
               data_tenant_id = None, data_languages = Map.empty, listeners = (\<lambda>_. []),
               isInitialized = False, currentLanguage = ''en'', isLoading = False,
               memoryCache = Map.empty\<rparr>"

definition payload_en :: response_data where
  "payload_en = \<lparr>tenant_id = ''acme-1'', languages =
     [\<lparr>code = ''en'', resources = [\<lparr>res_key = ''app.welcome'', res_value = ''Welcome!''\<rparr>]\<rparr>]\<rparr>"




definition engine_en :: tenlixor where
  "engine_en = (mergeData engine0 payload_en)\<lparr>isInitialized := True\<rparr>"



text \<open>Two callbacks: one returns, one throws on every event.\<close>

definition cb_ok :: listener where
  "cb_ok = \<lparr>cb_id = 2, cb_throws = (\<lambda>_. False)\<rparr>"

definition cb_bad :: listener where
  "cb_bad = \<lparr>cb_id = 1, cb_throws = (\<lambda>_. True)\<rparr>"

definition engine_two_listeners :: tenlixor where
  "engine_two_listeners = on (on engine_en Loaded cb_bad) Loaded cb_ok"

definition engine_error_listener :: tenlixor where
  "engine_error_listener = on engine_en Error cb_ok"

definition engine_new_error_listener :: tenlixor where
  "engine_new_error_listener = on engine0 Error cb_ok"

text \<open>
  A page that is offline, read at time 1000 and at time 400000; and an instance whose
  cache was written at time 0, so that the entry is older than the TTL at time 400000.
\<close>

definition env_offline :: env where
  "env_offline = \<lparr>fetch = (\<lambda>_. Rejected ''Failed to fetch''), now = 1000, now_saved = 1000\<rparr>"

definition env_offline_late :: env where
  "env_offline_late =
     \<lparr>fetch = (\<lambda>_. Rejected ''Failed to fetch''), now = 400000, now_saved = 400000\<rparr>"


definition page0 :: node where
  "page0 =
     Element ''html'' []
       [Element ''head'' [] [Element ''title'' [(''data-txr-key'', ''app.welcome'')] []],
        Element ''body'' []
          [Element ''h1'' [(''class'', ''hero''), (''data-txr-key'', ''app.welcome'')]
             [TextNode ''...''],
           Element ''p'' []
             [TextNode '' app.welcome '', Element ''b'' [] [TextNode ''app.welcome'']],
           Element ''script'' [] [TextNode ''app.welcome''],
           Element ''div'' [] [TextNode ''missing.key'']]]"

definition engine_page :: tenlixor where
  "engine_page =
     engine_en\<lparr>document := Some \<lparr>readyState = ''complete'', documentElement = page0\<rparr>\<rparr>"

subsection \<open>Invariants of the scanner\<close>

text \<open>
  The attributes of an element are settled for a language when a key that is not empty
  comes with the resolved mark and with that language; a tree is settled when every
  element in it is. \<open>marked\<close> is the write on the parent that follows the call of
  \<open>scanTextNodes\<close> on a child.
\<close>

definition attrs_settled :: "string \<Rightarrow> (string \<times> string) list \<Rightarrow> bool" where
  "attrs_settled lang attrs =
     (case getAttribute attrs ''data-txr-key'' of
        None \<Rightarrow> True
      | Some k \<Rightarrow> k = [] \<or> (hasAttribute attrs ''data-txr-resolved''
                              \<and> getAttribute attrs ''data-txr-lang'' = Some lang))"

fun settled :: "string \<Rightarrow> node \<Rightarrow> bool" where
  "settled lang (TextNode x) = True"
| "settled lang (Element tag attrs children) =
     (attrs_settled lang attrs \<and> (\<forall>c \<in> set children. settled lang c))"

definition marked ::
  "(string \<times> string) list \<Rightarrow> string \<Rightarrow> string option \<Rightarrow> (string \<times> string) list" where
  "marked attrs lang mark =
     (case mark of None \<Rightarrow> attrs | Some text \<Rightarrow> markResolved attrs text lang)"

section \<open>Properties\<close>

subsection \<open>The constructor and the instances it builds\<close>

lemma Tenlixor_config0: "Tenlixor config0 host0 = Inr engine0"
  by (simp add: Tenlixor_def config0_def host0_def engine0_def falsy_def or_string_def
      or_number_def not_false_def)

text \<open>
  C10. A configuration whose optional fields are given but falsy is accepted, and each
  such field takes its default: \<open>cacheTTL: 0\<close> becomes 300000, an empty \<open>language\<close>,
  \<open>apiUrl\<close> or \<open>fallbackLanguage\<close> becomes \<open>"en"\<close>, the fixed endpoint, \<open>"en"\<close>. The
  constructor throws exactly when \<open>token\<close> is missing or empty, or else \<open>tenantSlug\<close> is.
\<close>

theorem constructor_falsy_defaults:
  "(Tenlixor c h = Inl TokenRequired \<longleftrightarrow> cfg_token c = None \<or> cfg_token c = Some [])
 \<and> (Tenlixor c h = Inl TenantSlugRequired \<longleftrightarrow>
       \<not> (cfg_token c = None \<or> cfg_token c = Some [])
       \<and> (cfg_tenantSlug c = None \<or> cfg_tenantSlug c = Some []))
 \<and> (\<not> (cfg_token c = None \<or> cfg_token c = Some [])
       \<and> \<not> (cfg_tenantSlug c = None \<or> cfg_tenantSlug c = Some []) \<longrightarrow>
     (\<exists>s. Tenlixor c h = Inr s
        \<and> (cfg_cacheTTL c = Some 0 \<longrightarrow> cacheTTL (config s) = 300000)
        \<and> (cfg_language c = Some [] \<longrightarrow> language (config s) = ''en'' \<and> currentLanguage s = ''en'')
        \<and> (cfg_apiUrl c = Some [] \<longrightarrow>
              apiUrl (config s) = ''https://api-tenlixor.verbytes.com/api/v1/strings'')
        \<and> (cfg_fallbackLanguage c = Some [] \<longrightarrow> fallbackLanguage (config s) = ''en'')))"
  by (auto simp: Tenlixor_def falsy_def or_string_def or_number_def split: option.splits)

theorem constructor_falsy_defaults_witness:
  "\<exists>s. Tenlixor config_falsy host0 = Inr s
      \<and> cacheTTL (config s) = 300000
      \<and> language (config s) = ''en'' \<and> currentLanguage s = ''en''
      \<and> apiUrl (config s) = ''https://api-tenlixor.verbytes.com/api/v1/strings''
      \<and> fallbackLanguage (config s) = ''en''"
  using constructor_falsy_defaults [of config_falsy host0]
  by (simp add: config_falsy_def)

subsection \<open>mergeData\<close>








subsection \<open>The resolver\<close>







subsection \<open>The cache\<close>

text \<open>
  C7. An entry written by \<open>saveToCache\<close> at time \<open>T\<close> under the TTL \<open>D\<close> of the instance is
  returned by a read without \<open>ignoreTTL\<close> at time \<open>T + D - 1\<close> and is not returned at time
  \<open>T + D + 1\<close>; a read with \<open>ignoreTTL\<close> returns it at any time.
\<close>

theorem getFromCache_freshness:
  "getFromCache (saveToCache s languageCode d T) languageCode False
       (T + cacheTTL (config s) - 1) = Some d
 \<and> getFromCache (saveToCache s languageCode d T) languageCode False
       (T + cacheTTL (config s) + 1) = None
 \<and> getFromCache (saveToCache s languageCode d T) languageCode True time = Some d"
  by (cases "localStorage s")
    (simp_all add: getFromCache_def saveToCache_def getCacheKey_def Let_def)

theorem getFromCache_freshness_witness:
  "getFromCache (saveToCache engine0 ''en'' payload_en 1000) ''en'' False 300999 = Some payload_en
 \<and> getFromCache (saveToCache engine0 ''en'' payload_en 1000) ''en'' False 301001 = None
 \<and> getFromCache (saveToCache engine0 ''en'' payload_en 1000) ''en'' True 999999 = Some payload_en"
  using getFromCache_freshness [of engine0 "''en''" payload_en 1000 999999]
  by (simp add: engine0_def)

lemma getFromCache_stale_miss:
  "getFromCache s l True time = None \<Longrightarrow> getFromCache s l ignoreTTL time' = None"
  by (auto simp: getFromCache_def Let_def split: option.splits stored.splits if_splits)

lemma getFromCache_clearCache [simp]:
  "getFromCache (clearCache s l) l ignoreTTL time = None"
  by (cases "localStorage s")
    (simp_all add: getFromCache_def clearCache_def getCacheKey_def Let_def)

lemma getFromCache_currentLanguage [simp]:
  "getFromCache (s\<lparr>currentLanguage := x\<rparr>) l ignoreTTL time = getFromCache s l ignoreTTL time"
  by (simp add: getFromCache_def getCacheKey_def Let_def split: option.splits stored.splits)

lemma getFromCache_isLoading [simp]:
  "getFromCache (s\<lparr>isLoading := x\<rparr>) l ignoreTTL time = getFromCache s l ignoreTTL time"
  by (simp add: getFromCache_def getCacheKey_def Let_def split: option.splits stored.splits)

lemma config_clearCache [simp]: "config (clearCache s x) = config s"
  by (simp add: clearCache_def Let_def)

lemma currentLanguage_clearCache [simp]: "currentLanguage (clearCache s x) = currentLanguage s"
  by (simp add: clearCache_def Let_def)

subsection \<open>The event bus\<close>

lemma foldl_call_listener:
  "foldl (call_listener event d) s cbs =
     s\<lparr>calls := calls s @ map (\<lambda>cb. (cb_id cb, d)) cbs,
       console := console s @
         map (\<lambda>cb. (event, cb_id cb)) (filter (\<lambda>cb. cb_throws cb d) cbs)\<rparr>"
  by (induction cbs arbitrary: s) (simp_all add: call_listener_def Let_def)

lemma emit_eq:
  "emit s event d =
     s\<lparr>calls := calls s @ map (\<lambda>cb. (cb_id cb, d)) (listeners s event),
       console := console s @
         map (\<lambda>cb. (event, cb_id cb)) (filter (\<lambda>cb. cb_throws cb d) (listeners s event))\<rparr>"
  by (simp add: emit_def foldl_call_listener)

text \<open>
  C8. \<open>emit\<close> calls every subscriber of the event once, in the order of registration,
  whether or not an earlier one threw: the call log grows by exactly one call per
  registered callback, in the order of the list. What a subscriber throws is printed on
  the console and goes no further: \<open>emit\<close> returns the instance, otherwise unchanged. \<open>on\<close>
  registers at the end of the list.
\<close>

theorem emit_invokes_every_listener:
  "emit s event d =
     s\<lparr>calls := calls s @ map (\<lambda>cb. (cb_id cb, d)) (listeners s event),
       console := console s @
         map (\<lambda>cb. (event, cb_id cb)) (filter (\<lambda>cb. cb_throws cb d) (listeners s event))\<rparr>
 \<and> listeners (on s event callback) event = listeners s event @ [callback]"
  by (simp add: emit_def foldl_call_listener on_def)

text \<open>Two \<open>loaded\<close> listeners, the first of which throws: each is called once.\<close>

theorem emit_invokes_every_listener_witness:
  "listeners engine_two_listeners Loaded = [cb_bad, cb_ok]
 \<and> calls (emit engine_two_listeners Loaded (LoadedEvent ''en'' False)) =
     [(1, LoadedEvent ''en'' False), (2, LoadedEvent ''en'' False)]
 \<and> console (emit engine_two_listeners Loaded (LoadedEvent ''en'' False)) = [(Loaded, 1)]"
  using emit_invokes_every_listener [of engine_two_listeners Loaded "LoadedEvent ''en'' False"]
  by (simp add: engine_two_listeners_def on_def engine_en_def engine0_def mergeData_def
      cb_bad_def cb_ok_def)

subsection \<open>Loading a language\<close>

lemma fetchResponse_currentLanguage [simp]:
  "fetchResponse (s\<lparr>currentLanguage := x\<rparr>) e l = fetchResponse s e l"
  by (simp add: fetchResponse_def)

lemma fetchResponse_isLoading [simp]:
  "fetchResponse (s\<lparr>isLoading := x\<rparr>) e l = fetchResponse s e l"
  by (simp add: fetchResponse_def)

lemma fetchResponse_clearCache [simp]:
  "fetchResponse (clearCache s x) e l = fetchResponse s e l"
  by (simp add: fetchResponse_def clearCache_def Let_def)

lemma fetchStrings_fails:
  assumes "fetchResponse s e l = Inl err"
    and "cache (config s) \<longrightarrow> getFromCache s l True (now e) = None"
  shows "fetchStrings s e l = (Inl err, s)"
proof (cases "cache (config s)")
  case True
  with assms(2) have stale: "getFromCache s l True (now e) = None" by simp
  then have "getFromCache s l False (now e) = None" by (rule getFromCache_stale_miss)
  with stale assms(1) True show ?thesis by (simp add: fetchStrings_def)
next
  case False
  with assms(1) show ?thesis by (simp add: fetchStrings_def)
qed

lemma fetchResponse_offline [simp]:
  "fetchResponse s env_offline l = Inl (NetworkError ''Failed to fetch'')"
  "fetchResponse s env_offline_late l = Inl (NetworkError ''Failed to fetch'')"
  by (simp_all add: fetchResponse_def env_offline_def env_offline_late_def)




subsection \<open>init, setLanguage, reload\<close>

text \<open>
  C3. \<open>setLanguage\<close> with the current language returns at once: the instance is unchanged
  and nothing is fetched or emitted. With another language whose load fails (the fetch
  fails with \<open>err\<close> and, with caching enabled, no cache entry is found even ignoring the
  TTL), the promise is rejected with \<open>err\<close>, \<open>currentLanguage\<close> is what it was before the
  call, and every \<open>error\<close> listener has been called with the code
  \<open>LANGUAGE_CHANGE_FAILED\<close>.
\<close>

theorem setLanguage_rollback:
  "setLanguage s e (currentLanguage s) = (None, s)
 \<and> (languageCode \<noteq> currentLanguage s
      \<and> fetchResponse s e languageCode = Inl err
      \<and> (cache (config s) \<longrightarrow> getFromCache s languageCode True (now e) = None)
    \<longrightarrow> setLanguage s e languageCode =
          (Some err, emit s Error (ErrorEvent ''LANGUAGE_CHANGE_FAILED'' err))
      \<and> currentLanguage (snd (setLanguage s e languageCode)) = currentLanguage s
      \<and> calls (snd (setLanguage s e languageCode)) =
          calls s @ map (\<lambda>cb. (cb_id cb, ErrorEvent ''LANGUAGE_CHANGE_FAILED'' err))
                      (listeners s Error))"
proof -
  have noop: "setLanguage s e (currentLanguage s) = (None, s)"
    by (simp add: setLanguage_def)
  have fail: "setLanguage s e languageCode =
      (Some err, emit s Error (ErrorEvent ''LANGUAGE_CHANGE_FAILED'' err))"
    if "languageCode \<noteq> currentLanguage s" and "fetchResponse s e languageCode = Inl err"
      and "cache (config s) \<longrightarrow> getFromCache s languageCode True (now e) = None"
  proof -
    have "fetchStrings (s\<lparr>currentLanguage := languageCode\<rparr>) e languageCode
            = (Inl err, s\<lparr>currentLanguage := languageCode\<rparr>)"
      using that by (intro fetchStrings_fails) simp_all
    with that(1) show ?thesis by (simp add: setLanguage_def)
  qed
  show ?thesis
    using noop fail by (auto simp: emit_eq)
qed

lemma engine_error_listener_facts:
  "currentLanguage engine_error_listener = ''en''"
  "listeners engine_error_listener Error = [cb_ok]"
  "calls engine_error_listener = []"
  "getFromCache engine_error_listener ''tr'' True time = None"
  "isInitialized engine_error_listener"
  by (simp_all add: engine_error_listener_def on_def engine_en_def engine0_def mergeData_def
      getFromCache_def getCacheKey_def or_string_def Let_def)

text \<open>
  The scenario of the specification: the current language is \<open>"en"\<close>, the fetch for \<open>"tr"\<close>
  fails and there is no cache entry.
\<close>

theorem setLanguage_rollback_witness:
  "''tr'' \<noteq> currentLanguage engine_error_listener
 \<and> fetchResponse engine_error_listener env_offline ''tr'' = Inl (NetworkError ''Failed to fetch'')
 \<and> getFromCache engine_error_listener ''tr'' True (now env_offline) = None
 \<and> fst (setLanguage engine_error_listener env_offline ''tr'') = Some (NetworkError ''Failed to fetch'')
 \<and> currentLanguage (snd (setLanguage engine_error_listener env_offline ''tr'')) = ''en''
 \<and> calls (snd (setLanguage engine_error_listener env_offline ''tr'')) =
     [(2, ErrorEvent ''LANGUAGE_CHANGE_FAILED'' (NetworkError ''Failed to fetch''))]"
  using setLanguage_rollback [of engine_error_listener env_offline "''tr''"
      "NetworkError ''Failed to fetch''"]
  by (simp add: engine_error_listener_facts cb_ok_def emit_eq)

text \<open>
  C5. \<open>init\<close> on an instance that is loading returns at once and changes nothing.
  Otherwise \<open>isLoading\<close> is false when \<open>init\<close> has run, whether the load succeeded or not.
  The promise of \<open>init\<close> is never rejected. When the load fails with \<open>err\<close> (the fetch fails
  and, with caching enabled, no cache entry is found even ignoring the TTL), every \<open>error\<close>
  listener has been called with the code \<open>INIT_FAILED\<close>, nothing else has changed, and
  \<open>isInitialized\<close> is what it was: \<open>isReady\<close> is false on an instance that was not
  initialized.
\<close>

theorem init_failure:
  "(isLoading s \<longrightarrow> init s e = (None, s))
 \<and> fst (init s e) = None
 \<and> (\<not> isLoading s \<longrightarrow> \<not> isLoading (snd (init s e)))
 \<and> (\<not> isLoading s
      \<and> fetchResponse s e (currentLanguage s) = Inl err
      \<and> (cache (config s) \<longrightarrow> getFromCache s (currentLanguage s) True (now e) = None)
    \<longrightarrow> snd (init s e) = emit s Error (ErrorEvent ''INIT_FAILED'' err)
      \<and> calls (snd (init s e)) =
          calls s @ map (\<lambda>cb. (cb_id cb, ErrorEvent ''INIT_FAILED'' err)) (listeners s Error)
      \<and> isInitialized (snd (init s e)) = isInitialized s
      \<and> (\<not> isInitialized s \<longrightarrow> \<not> isReady (snd (init s e))))"
proof -
  have noop: "isLoading s \<Longrightarrow> init s e = (None, s)"
    by (simp add: init_def)
  have settle: "fst (init s e) = None"
    by (simp add: init_def Let_def split: prod.splits sum.splits)
  have cleared: "\<not> isLoading s \<Longrightarrow> \<not> isLoading (snd (init s e))"
    by (simp add: init_def Let_def split: prod.splits sum.splits)
  have fail: "snd (init s e) = emit s Error (ErrorEvent ''INIT_FAILED'' err)"
    if "\<not> isLoading s" and "fetchResponse s e (currentLanguage s) = Inl err"
      and "cache (config s) \<longrightarrow> getFromCache s (currentLanguage s) True (now e) = None"
  proof -
    have "fetchStrings (s\<lparr>isLoading := True\<rparr>) e (currentLanguage s)
            = (Inl err, s\<lparr>isLoading := True\<rparr>)"
      using that by (intro fetchStrings_fails) simp_all
    with that(1) show ?thesis by (simp add: init_def emit_eq)
  qed
  show ?thesis
    using noop settle cleared fail by (auto simp: emit_eq isReady_def)
qed

lemma engine_new_error_listener_facts:
  "currentLanguage engine_new_error_listener = ''en''"
  "listeners engine_new_error_listener Error = [cb_ok]"
  "calls engine_new_error_listener = []"
  "getFromCache engine_new_error_listener ''en'' True time = None"
  "\<not> isLoading engine_new_error_listener"
  "\<not> isInitialized engine_new_error_listener"
  by (simp_all add: engine_new_error_listener_def on_def engine0_def
      getFromCache_def getCacheKey_def or_string_def Let_def)

theorem init_failure_witness:
  "\<not> isLoading engine_new_error_listener
 \<and> fetchResponse engine_new_error_listener env_offline ''en'' = Inl (NetworkError ''Failed to fetch'')
 \<and> getFromCache engine_new_error_listener ''en'' True (now env_offline) = None
 \<and> fst (init engine_new_error_listener env_offline) = None
 \<and> \<not> isLoading (snd (init engine_new_error_listener env_offline))
 \<and> \<not> isReady (snd (init engine_new_error_listener env_offline))
 \<and> calls (snd (init engine_new_error_listener env_offline)) =
     [(2, ErrorEvent ''INIT_FAILED'' (NetworkError ''Failed to fetch''))]"
  using init_failure [of engine_new_error_listener env_offline "NetworkError ''Failed to fetch''"]
  by (simp add: engine_new_error_listener_facts cb_ok_def emit_eq isReady_def)

text \<open>
  C2: what the code does. \<open>reload\<close> has no handler around the load. When the fetch
  fails, the cache entry of the current language has just been cleared, so the load fails;
  the promise of \<open>reload\<close> is rejected with the error of the fetch and no listener is
  called.
\<close>

theorem reload_rethrows:
  assumes "fetchResponse s e (currentLanguage s) = Inl err"
  shows "reload s e = (Some err, if cache (config s) then clearCache s (currentLanguage s) else s)
       \<and> calls (snd (reload s e)) = calls s"
proof -
  have "fetchStrings (clearCache s (currentLanguage s)) e (currentLanguage s)
          = (Inl err, clearCache s (currentLanguage s))"
    using assms by (intro fetchStrings_fails) simp_all
  moreover have "\<not> cache (config s) \<Longrightarrow> fetchStrings s e (currentLanguage s) = (Inl err, s)"
    using assms by (intro fetchStrings_fails) simp_all
  ultimately show ?thesis
    by (simp add: reload_def clearCache_def Let_def)
qed

text \<open>
  An initialized instance with an \<open>error\<close> listener, offline: the promise is rejected and
  the listener is not called.
\<close>

theorem reload_rethrows_witness:
  "fetchResponse engine_error_listener env_offline (currentLanguage engine_error_listener)
     = Inl (NetworkError ''Failed to fetch'')
 \<and> listeners engine_error_listener Error = [cb_ok]
 \<and> fst (reload engine_error_listener env_offline) = Some (NetworkError ''Failed to fetch'')
 \<and> calls (snd (reload engine_error_listener env_offline)) = []"
  using reload_rethrows [of engine_error_listener env_offline "NetworkError ''Failed to fetch''"]
  by (simp add: engine_error_listener_facts clearCache_def Let_def)

subsection \<open>The scanner\<close>

lemma truthy_entry_document [simp]:
  "truthy_entry (s\<lparr>document := d\<rparr>) lang k = truthy_entry s lang k"
  by (simp add: truthy_entry_def)

lemma t_document [simp]: "t (s\<lparr>document := d\<rparr>) k languageCode = t s k languageCode"
  by (simp add: t_def Let_def split: option.splits)

lemma scanAttributes_document [simp]:
  "scanAttributes (s\<lparr>document := d\<rparr>) lang n = scanAttributes s lang n"
  by (induction s lang n rule: scanAttributes.induct) (simp_all split: option.splits)

lemma scanTextNodes_document:
  "scanTextNodes (s\<lparr>document := d\<rparr>) lang n = scanTextNodes s lang n"
  "scanChildNodes (s\<lparr>document := d\<rparr>) lang cs attrs = scanChildNodes s lang cs attrs"
  by (induction s lang n and s lang cs attrs rule: scanTextNodes_scanChildNodes.induct)
    (simp_all add: Let_def split: option.splits prod.splits)

lemma getAttribute_setAttribute [simp]:
  "getAttribute (setAttribute attrs name v) name' =
     (if name' = name then Some v else getAttribute attrs name')"
  by (simp add: getAttribute_def setAttribute_def update_conv')

lemma hasAttribute_setAttribute [simp]:
  "hasAttribute (setAttribute attrs name v) name' = (name' = name \<or> hasAttribute attrs name')"
  by (simp add: hasAttribute_def setAttribute_def update_conv')

lemma attrs_settled_markResolved [simp]: "attrs_settled lang (markResolved attrs text lang)"
  by (simp add: attrs_settled_def markResolved_def)

lemma hasAttribute_markResolved [simp]:
  "hasAttribute (markResolved attrs text lang) ''data-txr-resolved''"
  by (simp add: markResolved_def)

lemma settled_scanAttributes: "settled lang (scanAttributes s lang n)"
  by (induction s lang n rule: scanAttributes.induct)
    (auto simp: attrs_settled_def split: option.splits)

lemma scanAttributes_settled: "settled lang n \<Longrightarrow> scanAttributes s lang n = n"
  by (induction s lang n rule: scanAttributes.induct)
    (auto simp: attrs_settled_def map_idI split: option.splits)

lemma settled_scanTextNodes:
  "settled lang n \<Longrightarrow> settled lang (fst (scanTextNodes s lang n))"
  "(\<forall>c \<in> set cs. settled lang c) \<Longrightarrow> attrs_settled lang attrs \<Longrightarrow>
     (\<forall>c \<in> set (fst (scanChildNodes s lang cs attrs)). settled lang c)
     \<and> attrs_settled lang (snd (scanChildNodes s lang cs attrs))"
  by (induction s lang n and s lang cs attrs rule: scanTextNodes_scanChildNodes.induct)
    (auto simp: Let_def split: option.splits prod.splits)

lemma scanTextNodes_Element_mark [simp]:
  "snd (scanTextNodes s lang (Element tag attrs children)) = None"
  by (simp split: prod.splits)

lemma scanChildNodes_Cons:
  "scanChildNodes s lang (c # cs) attrs =
     (fst (scanTextNodes s lang c) #
        fst (scanChildNodes s lang cs (marked attrs lang (snd (scanTextNodes s lang c)))),
      snd (scanChildNodes s lang cs (marked attrs lang (snd (scanTextNodes s lang c)))))"
  by (simp add: case_prod_beta marked_def)

lemma marked_unresolved:
  "\<not> hasAttribute (marked attrs lang mark) ''data-txr-resolved'' \<Longrightarrow> mark = None"
  by (cases mark) (simp_all add: marked_def)

lemma scanTextNodes_stable:
  "snd (scanTextNodes s lang n) = None \<Longrightarrow>
     scanTextNodes s lang (fst (scanTextNodes s lang n)) = (fst (scanTextNodes s lang n), None)"
  "hasAttribute (snd (scanChildNodes s lang cs attrs)) ''data-txr-resolved''
   \<or> (snd (scanChildNodes s lang cs attrs) = attrs
       \<and> (\<forall>b. scanChildNodes s lang (fst (scanChildNodes s lang cs attrs)) b
                = (fst (scanChildNodes s lang cs attrs), b)))"
proof (induction s lang n and s lang cs attrs rule: scanTextNodes_scanChildNodes.induct)
  case (1 s lang x)
  then show ?case by (simp add: Let_def split: if_splits)
next
  case (2 s lang tag attrs children)
  then show ?case by (auto simp: case_prod_beta)
next
  case (3 s lang attrs)
  then show ?case by simp
next
  case (4 s lang child rest attrs)
  let ?mark = "snd (scanTextNodes s lang child)"
  let ?attrs1 = "marked attrs lang ?mark"
  let ?attrs2 = "snd (scanChildNodes s lang rest ?attrs1)"
  show ?case
  proof (cases "hasAttribute ?attrs2 ''data-txr-resolved''")
    case True
    then show ?thesis by (simp only: scanChildNodes_Cons snd_conv simp_thms)
  next
    case False
    have rest: "?attrs2 = ?attrs1 \<and>
        (\<forall>b. scanChildNodes s lang (fst (scanChildNodes s lang rest ?attrs1)) b
               = (fst (scanChildNodes s lang rest ?attrs1), b))"
      using "4.IH"(2) [of "fst (scanTextNodes s lang child)" ?mark] False
      by (simp add: marked_def)
    then have "\<not> hasAttribute ?attrs1 ''data-txr-resolved''"
      using False by simp
    then have mark: "?mark = None" by (rule marked_unresolved)
    then have child: "scanTextNodes s lang (fst (scanTextNodes s lang child))
        = (fst (scanTextNodes s lang child), None)"
      by (rule "4.IH"(1))
    have attrs1: "?attrs1 = attrs" using mark by (simp add: marked_def)
    show ?thesis
      using rest child attrs1 mark
      by (simp add: scanChildNodes_Cons marked_def del: scanChildNodes.simps(2))
  qed
qed


lemma isBody_scanTextNodes [simp]: "isBody (fst (scanTextNodes s lang n)) = isBody n"
  by (cases n) (simp_all add: Let_def case_prod_beta)

lemma scanTextNodes_twice:
  "isBody n \<Longrightarrow>
     fst (scanTextNodes s lang (fst (scanTextNodes s lang n))) = fst (scanTextNodes s lang n)"
proof (cases n)
  case (TextNode x)
  assume "isBody n"
  with TextNode show ?thesis by simp
next
  case (Element tag attrs children)
  have "snd (scanTextNodes s lang n) = None"
    unfolding Element by (rule scanTextNodes_Element_mark)
  then show ?thesis by (simp only: scanTextNodes_stable(1) fst_conv)
qed

lemma scanFirstBody_twice:
  "scanFirstBody s lang (scanFirstBody s lang cs) = scanFirstBody s lang cs"
  by (induction cs) (simp_all add: scanTextNodes_twice)

lemma scanBody_twice: "scanBody s lang (scanBody s lang n) = scanBody s lang n"
  by (cases n) (simp_all add: scanFirstBody_twice)

lemma settled_scanFirstBody:
  "(\<forall>c \<in> set cs. settled lang c) \<Longrightarrow> (\<forall>c \<in> set (scanFirstBody s lang cs). settled lang c)"
  by (induction cs) (simp_all add: settled_scanTextNodes(1))

lemma settled_scanBody: "settled lang n \<Longrightarrow> settled lang (scanBody s lang n)"
  using settled_scanFirstBody by (cases n) auto

lemma scan_document_twice:
  "scanBody s lang (scanAttributes s lang (scanBody s lang (scanAttributes s lang n)))
     = scanBody s lang (scanAttributes s lang n)"
proof -
  have "settled lang (scanBody s lang (scanAttributes s lang n))"
    by (intro settled_scanBody settled_scanAttributes)
  then have "scanAttributes s lang (scanBody s lang (scanAttributes s lang n))
      = scanBody s lang (scanAttributes s lang n)"
    by (rule scanAttributes_settled)
  then show ?thesis by (simp add: scanBody_twice)
qed

lemma scanBody_document [simp]:
  "scanBody (s\<lparr>document := d\<rparr>) lang n = scanBody s lang n"
proof -
  have "scanFirstBody (s\<lparr>document := d\<rparr>) lang cs = scanFirstBody s lang cs" for cs
    by (induction cs) (simp_all add: scanTextNodes_document)
  then show ?thesis by (cases n) simp_all
qed

lemma page_scan:
  "map_option documentElement (document (scan engine_page)) = Some
    (Element ''html'' []
      [Element ''head'' []
        [Element ''title''
          [(''data-txr-key'', ''app.welcome''), (''data-txr-resolved'', ''true''),
           (''data-txr-lang'', ''en'')]
          [TextNode ''Welcome!'']],
       Element ''body'' []
        [Element ''h1''
          [(''class'', ''hero''), (''data-txr-key'', ''app.welcome''),
           (''data-txr-resolved'', ''true''), (''data-txr-lang'', ''en'')]
          [TextNode ''Welcome!''],
         Element ''p''
          [(''data-txr-resolved'', ''true''), (''data-txr-key'', ''app.welcome''),
           (''data-txr-lang'', ''en'')]
          [TextNode ''Welcome!'',
           Element ''b''
            [(''data-txr-resolved'', ''true''), (''data-txr-key'', ''app.welcome''),
             (''data-txr-lang'', ''en'')]
            [TextNode ''Welcome!'']],
         Element ''script'' [] [TextNode ''app.welcome''],
         Element ''div'' [] [TextNode ''missing.key'']]])"
  by (simp add: scan_def engine_page_def engine_en_def engine0_def page0_def mergeData_def
      mergeLanguages_def keyValueMap_def payload_en_def getAttribute_def hasAttribute_def
      setAttribute_def markResolved_def t_def truthy_entry_def or_string_def trim_def
      is_space_def Let_def)

text \<open>
  C9. A second \<open>scan\<close> right after a first one changes nothing: the instance and the
  document after \<open>scan (scan s)\<close> are those after \<open>scan s\<close>, for every document, every
  table and every current language. On an instance that is not initialized \<open>scan\<close>
  changes nothing at all.
\<close>

theorem scan_idempotent:
  "scan (scan s) = scan s \<and> (\<not> isInitialized s \<longrightarrow> scan s = s)"
  by (simp add: scan_def Let_def scan_document_twice split: option.splits)

text \<open>
  A page with a keyed title and heading, a paragraph whose text is a key, a script and
  a text that is no key: the first scan translates it, the second leaves it as it is.
\<close>

theorem scan_idempotent_witness:
  "isInitialized engine_page
 \<and> map_option documentElement (document (scan engine_page)) \<noteq> Some page0
 \<and> scan (scan engine_page) = scan engine_page
 \<and> \<not> isInitialized (engine_page\<lparr>isInitialized := False\<rparr>)
 \<and> scan (engine_page\<lparr>isInitialized := False\<rparr>) = engine_page\<lparr>isInitialized := False\<rparr>"
  using scan_idempotent [of engine_page] scan_idempotent [of "engine_page\<lparr>isInitialized := False\<rparr>"]
  by (simp add: page_scan) (simp add: engine_page_def engine_en_def page0_def)

end
